theory Spec2Isabelle
  imports Complex_Main
begin

section \<open>Python values shared by the modules\<close>

text \<open>
  Exceptions are values: every function that can raise returns \<open>py_error + 'a\<close>, with
  \<open>Inl\<close> for the exception. The constructors are the exception classes that the
  modelled code can raise.
\<close>

datatype py_error =
  ValueError | IndexError | KeyError | ZeroDivisionError | TypeError | OverflowError
  | AttributeError | UnboundLocalError

text \<open>
  Python floats are modelled by the real numbers they approximate, extended by the two
  infinities that the code produces on purpose (\<open>math.inf\<close>). Rounding is not modelled.
\<close>

datatype pyfloat = Fin real | PosInf | NegInf

section \<open>misc.py\<close>

text \<open>
  \<^verbatim>\<open>def prob_to_bayes_factor(prob): return prob / (1 - prob) if prob != 1 else inf\<close>
\<close>

definition prob_to_bayes_factor :: "real \<Rightarrow> pyfloat" where
  "prob_to_bayes_factor prob = (if prob \<noteq> 1 then Fin (prob / (1 - prob)) else PosInf)"

text \<open>
  A row of the count query (\<open>select count(*) as count ...\<close>), read through
  \<open>m["count"]\<close>.
\<close>

record count_row =
  count :: int

text \<open>
  \<open>calculate_cartesian(df_rows, link_type)\<close>. The link type is the string the code
  compares; \<open>/\<close> is Python's true division, so the result is a float. \<open>n[0]\<close> on an
  empty list raises \<open>IndexError\<close>.
\<close>

definition calculate_cartesian :: "count_row list \<Rightarrow> string \<Rightarrow> py_error + real" where
  "calculate_cartesian n link_type =
     (if link_type = ''link_only'' then
        (if length n \<le> 1 then Inl ValueError
         else Inr ((real_of_int ((sum_list (map count n))\<^sup>2 - sum_list (map (\<lambda>m. (count m)\<^sup>2) n))) / 2))
      else if link_type = ''dedupe_only'' then
        (if length n > 1 then Inl ValueError
         else (case n of
                 [] \<Rightarrow> Inl IndexError
               | m # _ \<Rightarrow> Inr (real_of_int (count m * (count m - 1)) / 2)))
      else if link_type = ''link_and_dedupe'' then
        (let total_rows = sum_list (map count n)
         in Inr (real_of_int (total_rows * (total_rows - 1)) / 2))
      else Inl ValueError)"

text \<open>\<open>calculate_reduction_ratio(N, cartesian)\<close>: \<open>1 - (N / cartesian)\<close>.\<close>

definition calculate_reduction_ratio :: "int \<Rightarrow> real \<Rightarrow> py_error + real" where
  "calculate_reduction_ratio N cartesian =
     (if cartesian = 0 then Inl ZeroDivisionError else Inr (1 - real_of_int N / cartesian))"

section \<open>Python builtins used by the modules\<close>

text \<open>
  Values found in a scored record (a row of the prediction table read as a dict).
\<close>

datatype pyval = PyInt int | PyFloat pyfloat | PyStr string | PyNone

text \<open>
  The text Python prints for a float (\<open>str(x)\<close>, and the format \<open>{x:,.2f}\<close>) and the
  integer \<open>int(s)\<close> reads from a string belong to the interpreter, not to this
  repository: they are parameters of the model.
\<close>

record py_builtins =
  str_float :: "pyfloat \<Rightarrow> string"
  format_2f :: "pyfloat \<Rightarrow> string"
  int_of_str :: "string \<Rightarrow> int option"

definition digit_char :: "nat \<Rightarrow> char" where
  "digit_char d = char_of (48 + d)"

fun str_nat :: "nat \<Rightarrow> string" where
  "str_nat n = (if n < 10 then [digit_char n] else str_nat (n div 10) @ [digit_char (n mod 10)])"

definition str_int :: "int \<Rightarrow> string" where
  "str_int i = (if i < 0 then CHR ''-'' # str_nat (nat (- i)) else str_nat (nat i))"

text \<open>\<open>str(v)\<close>.\<close>

fun py_str :: "py_builtins \<Rightarrow> pyval \<Rightarrow> string" where
  "py_str py (PyInt i) = str_int i"
| "py_str py (PyFloat x) = str_float py x"
| "py_str py (PyStr s) = s"
| "py_str py PyNone = ''None''"

text \<open>\<open>int(v)\<close>: a float is truncated towards zero, an infinity or \<open>None\<close> raises.\<close>

fun py_int :: "py_builtins \<Rightarrow> pyval \<Rightarrow> py_error + int" where
  "py_int py (PyInt i) = Inr i"
| "py_int py (PyFloat (Fin x)) = Inr (if x < 0 then \<lceil>x\<rceil> else \<lfloor>x\<rfloor>)"
| "py_int py (PyFloat _) = Inl OverflowError"
| "py_int py (PyStr s) = (case int_of_str py s of None \<Rightarrow> Inl ValueError | Some i \<Rightarrow> Inr i)"
| "py_int py PyNone = Inl TypeError"

text \<open>A value used where the code needs a number (\<open>math.log2(bf)\<close>, \<open>2 ** w\<close>, \<open>bf >= 1.0\<close>).\<close>

fun as_float :: "pyval \<Rightarrow> py_error + pyfloat" where
  "as_float (PyInt i) = Inr (Fin (real_of_int i))"
| "as_float (PyFloat x) = Inr x"
| "as_float _ = Inl TypeError"

text \<open>\<open>math.log2(x)\<close>: raises \<open>ValueError\<close> (math domain error) unless \<open>x > 0\<close>.\<close>

fun math_log2 :: "pyfloat \<Rightarrow> py_error + pyfloat" where
  "math_log2 (Fin x) = (if x > 0 then Inr (Fin (log 2 x)) else Inl ValueError)"
| "math_log2 PosInf = Inr PosInf"
| "math_log2 NegInf = Inl ValueError"

text \<open>\<open>2 ** w\<close>.\<close>

fun pow2 :: "pyfloat \<Rightarrow> pyfloat" where
  "pow2 (Fin w) = Fin (2 powr w)"
| "pow2 PosInf = PosInf"
| "pow2 NegInf = Fin 0"

text \<open>\<open>bf >= 1.0\<close> and \<open>1 / bf\<close>.\<close>

fun ge_one :: "pyfloat \<Rightarrow> bool" where
  "ge_one (Fin x) = (x \<ge> 1)"
| "ge_one PosInf = True"
| "ge_one NegInf = False"

fun one_over :: "pyfloat \<Rightarrow> py_error + pyfloat" where
  "one_over (Fin x) = (if x = 0 then Inl ZeroDivisionError else Inr (Fin (1 / x)))"
| "one_over _ = Inr (Fin 0)"

text \<open>\<open>sep.join(xs)\<close>.\<close>

fun join :: "string \<Rightarrow> string list \<Rightarrow> string" where
  "join sep [] = []"
| "join sep [x] = x"
| "join sep (x # y # ys) = x @ sep @ join sep (y # ys)"

section \<open>waterfall\_chart.py\<close>

text \<open>
  A waterfall record is a dict with a fixed set of keys. \<open>None\<close> in an option field is
  Python's \<open>None\<close>; \<open>bar_sort_order\<close> is \<open>None\<close> while the key is absent.
\<close>

record waterfall_record =
  column_name :: string
  label_for_charts :: string
  sql_condition :: "string option"
  log2_bayes_factor :: pyfloat
  bayes_factor :: pyfloat
  comparison_vector_value :: "int option"
  m_probability :: "real option"
  u_probability :: "real option"
  bayes_factor_description :: "string option"
  value_l :: string
  value_r :: string
  term_frequency_adjustment :: "bool option"
  bar_sort_order :: "nat option"

text \<open>
  The dicts are objects: a list holds references to them and an assignment
  \<open>rec[key] = v\<close> changes the object every holder sees. The store is the list of the
  objects allocated so far; a reference is an index into it.
\<close>

type_synonym ref = nat
type_synonym store = "waterfall_record list"

definition new_dict :: "waterfall_record \<Rightarrow> store \<Rightarrow> ref \<times> store" where
  "new_dict d h = (length h, h @ [d])"

text \<open>The attributes of the settings, comparison and level objects that the module reads.\<close>

record input_column =
  input_name :: string
  name_l :: string
  name_r :: string

record comparison_level =
  level_comparison_vector_value :: int
  level_label_for_charts :: string
  level_sql_condition :: "string option"
  level_log2_bayes_factor :: pyfloat
  level_bayes_factor :: pyfloat
  level_m_probability :: "real option"
  level_u_probability :: "real option"
  level_bayes_factor_description :: string
  has_tf_adjustments :: bool
  tf_adjustment_input_column :: "input_column option"
  tf_adjustment_weight :: pyfloat

record comparison =
  comparison_name :: string
  gamma_column_name :: string
  bf_tf_adj_column_name :: string
  comparison_levels :: "comparison_level list"
  input_columns_used_by_case_statement :: "input_column list"

record settings =
  proportion_of_matches :: real
  comparisons :: "comparison list"

type_synonym record_dict = "string \<rightharpoonup> pyval"

text \<open>\<open>d[key]\<close>.\<close>

definition getitem :: "record_dict \<Rightarrow> string \<Rightarrow> py_error + pyval" where
  "getitem d k = (case d k of None \<Rightarrow> Inl KeyError | Some v \<Rightarrow> Inr v)"

text \<open>\<open>[str(record_as_dict[n]) for n in cols]\<close>: the first missing key raises.\<close>

fun str_values :: "py_builtins \<Rightarrow> record_dict \<Rightarrow> string list \<Rightarrow> py_error + string list" where
  "str_values py d [] = Inr []"
| "str_values py d (n # ns) =
     (case getitem d n of
        Inl e \<Rightarrow> Inl e
      | Inr v \<Rightarrow> (case str_values py d ns of Inl e \<Rightarrow> Inl e | Inr vs \<Rightarrow> Inr (py_str py v # vs)))"

text \<open>
  Modelled from the spec: \<open>Comparison.get_comparison_level_by_comparison_vector_value\<close>
  is not among the sources. The spec: "look up which comparison-outcome level applies
  using the record's discrete code for that comparison". The level is the first one
  whose code equals the value; none raises.
\<close>

fun code_equals :: "int \<Rightarrow> pyval \<Rightarrow> bool" where
  "code_equals c (PyInt i) = (c = i)"
| "code_equals c (PyFloat (Fin x)) = (real_of_int c = x)"
| "code_equals c _ = False"

definition get_comparison_level_by_comparison_vector_value ::
  "comparison \<Rightarrow> pyval \<Rightarrow> py_error + comparison_level" where
  "get_comparison_level_by_comparison_vector_value cc v =
     (case find (\<lambda>cl. code_equals (level_comparison_vector_value cl) v) (comparison_levels cc) of
        None \<Rightarrow> Inl ValueError
      | Some cl \<Rightarrow> Inr cl)"

text \<open>\<open>_prior_record(settings_obj)\<close>: builds a new dict.\<close>

definition prior_record :: "settings \<Rightarrow> store \<Rightarrow> py_error + ref \<times> store" where
  "prior_record settings_obj h =
     (let bf = prob_to_bayes_factor (proportion_of_matches settings_obj) in
      case math_log2 bf of
        Inl e \<Rightarrow> Inl e
      | Inr l \<Rightarrow> Inr (new_dict
          \<lparr> column_name = ''Prior'',
            label_for_charts = ''Starting match weight (prior)'',
            sql_condition = None,
            log2_bayes_factor = l,
            bayes_factor = bf,
            comparison_vector_value = None,
            m_probability = None,
            u_probability = None,
            bayes_factor_description = None,
            value_l = [],
            value_r = [],
            term_frequency_adjustment = None,
            bar_sort_order = None \<rparr> h))"

text \<open>\<open>_final_score_record(record_as_dict)\<close>: builds a new dict.\<close>

definition final_score_record :: "record_dict \<Rightarrow> store \<Rightarrow> py_error + ref \<times> store" where
  "final_score_record record_as_dict h =
     (case getitem record_as_dict ''match_weight'' of
        Inl e \<Rightarrow> Inl e
      | Inr mw \<Rightarrow>
     (case as_float mw of
        Inl e \<Rightarrow> Inl e
      | Inr w \<Rightarrow> Inr (new_dict
          \<lparr> column_name = ''Final score'',
            label_for_charts = ''Final score'',
            sql_condition = None,
            log2_bayes_factor = w,
            bayes_factor = pow2 w,
            comparison_vector_value = None,
            m_probability = None,
            u_probability = None,
            bayes_factor_description = None,
            value_l = [],
            value_r = [],
            term_frequency_adjustment = None,
            bar_sort_order = None \<rparr> h)))"

text \<open>Sequencing of calls that may raise: the first exception ends the function.\<close>

definition pbind :: "py_error + 'a \<Rightarrow> ('a \<Rightarrow> py_error + 'b) \<Rightarrow> py_error + 'b" where
  "pbind m f = (case m of Inl e \<Rightarrow> Inl e | Inr x \<Rightarrow> f x)"

text \<open>\<open>rec[key] = v\<close> on the object behind a reference.\<close>

definition setitem :: "ref \<Rightarrow> (waterfall_record \<Rightarrow> waterfall_record) \<Rightarrow> store \<Rightarrow> store" where
  "setitem r f h = h[r := f (h ! r)]"

text \<open>\<open>cl.tf_adjustment_input_column.input_name\<close>: an attribute of \<open>None\<close> raises.\<close>

definition tf_input_name :: "comparison_level \<Rightarrow> py_error + string" where
  "tf_input_name cl =
     (case tf_adjustment_input_column cl of None \<Rightarrow> Inl AttributeError | Some ic \<Rightarrow> Inr (input_name ic))"

text \<open>\<open>name.replace("`", "")\<close>.\<close>

definition strip_backticks :: "string \<Rightarrow> string" where
  "strip_backticks s = filter (\<lambda>c. c \<noteq> CHR 0x60) s"

text \<open>
  \<open>_comparison_records(record_as_dict, comparison)\<close>. The list \<open>output_records\<close> holds
  references: \<open>waterfall_record\<close> is appended first and assigned to afterwards, and
  \<open>deepcopy\<close> allocates the second dict.
\<close>

definition comparison_records ::
  "py_builtins \<Rightarrow> record_dict \<Rightarrow> comparison \<Rightarrow> store \<Rightarrow> py_error + ref list \<times> store" where
  "comparison_records py record_as_dict cc h =
     pbind (getitem record_as_dict (gamma_column_name cc)) (\<lambda>cv_value.
     pbind (get_comparison_level_by_comparison_vector_value cc cv_value) (\<lambda>cl.
     pbind (py_int py cv_value) (\<lambda>cv_int.
     let input_cols_used = input_columns_used_by_case_statement cc;
         input_cols_l = map (\<lambda>ic. strip_backticks (name_l ic)) input_cols_used;
         input_cols_r = map (\<lambda>ic. strip_backticks (name_r ic)) input_cols_used in
     pbind (str_values py record_as_dict input_cols_l) (\<lambda>vals_l.
     pbind (str_values py record_as_dict input_cols_r) (\<lambda>vals_r.
     let (waterfall_record, h1) = new_dict
           \<lparr> column_name = comparison_name cc,
             label_for_charts = level_label_for_charts cl,
             sql_condition = level_sql_condition cl,
             log2_bayes_factor = level_log2_bayes_factor cl,
             bayes_factor = level_bayes_factor cl,
             comparison_vector_value = Some cv_int,
             m_probability = level_m_probability cl,
             u_probability = level_u_probability cl,
             bayes_factor_description = Some (level_bayes_factor_description cl),
             value_l = join '', '' vals_l,
             value_r = join '', '' vals_r,
             term_frequency_adjustment = Some False,
             bar_sort_order = None \<rparr> h;
         output_records = [waterfall_record] in
     if has_tf_adjustments cl then
       let (waterfall_record_2, h2) = new_dict (h1 ! waterfall_record) h1;
           h3 = setitem waterfall_record_2 (\<lambda>d. d\<lparr>column_name := ''tf_'' @ comparison_name cc\<rparr>) h2;
           h4 = setitem waterfall_record_2 (\<lambda>d. d\<lparr>term_frequency_adjustment := Some True\<rparr>) h3 in
       pbind (tf_input_name cl) (\<lambda>tf_name.
       let h5 = setitem waterfall_record_2 (\<lambda>d. d\<lparr>label_for_charts :=
                  ''Term freq adjustment on '' @ tf_name @ '' with weight ''
                    @ str_float py (tf_adjustment_weight cl)\<rparr>) h4 in
       pbind (getitem record_as_dict (bf_tf_adj_column_name cc)) (\<lambda>bf_value.
       pbind (as_float bf_value) (\<lambda>bf.
       let h6 = setitem waterfall_record_2 (\<lambda>d. d\<lparr>bayes_factor := bf\<rparr>) h5 in
       pbind (math_log2 bf) (\<lambda>l.
       let h7 = setitem waterfall_record_2 (\<lambda>d. d\<lparr>log2_bayes_factor := l\<rparr>) h6;
           h8 = setitem waterfall_record_2 (\<lambda>d. d\<lparr>m_probability := None\<rparr>) h7;
           h9 = setitem waterfall_record_2 (\<lambda>d. d\<lparr>u_probability := None\<rparr>) h8;
           h10 = setitem waterfall_record (\<lambda>d. d\<lparr>bayes_factor_description := None\<rparr>) h9;
           text0 = ''Term frequency adjustment on '' @ tf_name @ '' makes comparison '' in
       pbind (if ge_one bf
              then Inr (text0 @ '' '' @ format_2f py bf @ '' times more likely to be a match'')
              else pbind (one_over bf) (\<lambda>mult.
                     Inr (text0 @ ''  '' @ format_2f py mult @ '' times less likely to be a match'')))
         (\<lambda>text1.
       let h11 = setitem waterfall_record_2 (\<lambda>d. d\<lparr>bayes_factor_description := Some text1\<rparr>) h10
       in Inr (output_records @ [waterfall_record_2], h11))))))
     else Inr (output_records, h1))))))"

text \<open>
  \<open>for cc in comparisons: waterfall_records.extend(_comparison_records(record_as_dict, cc))\<close>
\<close>

fun extend_with_comparisons ::
  "py_builtins \<Rightarrow> record_dict \<Rightarrow> comparison list \<Rightarrow> ref list \<Rightarrow> store \<Rightarrow> py_error + ref list \<times> store" where
  "extend_with_comparisons py record_as_dict [] waterfall_records h = Inr (waterfall_records, h)"
| "extend_with_comparisons py record_as_dict (cc # ccs) waterfall_records h =
     pbind (comparison_records py record_as_dict cc h) (\<lambda>(records, h').
       extend_with_comparisons py record_as_dict ccs (waterfall_records @ records) h')"

text \<open>\<open>for i, rec in enumerate(waterfall_records): rec["bar_sort_order"] = i\<close>, from index \<open>i\<close> on.\<close>

fun set_bar_sort_order :: "nat \<Rightarrow> ref list \<Rightarrow> store \<Rightarrow> store" where
  "set_bar_sort_order i [] h = h"
| "set_bar_sort_order i (r # rs) h =
     set_bar_sort_order (Suc i) rs (setitem r (\<lambda>d. d\<lparr>bar_sort_order := Some i\<rparr>) h)"

text \<open>\<open>record_to_waterfall_data(record_as_dict, settings_obj)\<close>.\<close>

definition record_to_waterfall_data ::
  "py_builtins \<Rightarrow> record_dict \<Rightarrow> settings \<Rightarrow> store \<Rightarrow> py_error + ref list \<times> store" where
  "record_to_waterfall_data py record_as_dict settings_obj h =
     pbind (prior_record settings_obj h) (\<lambda>(prior, h1).
     pbind (extend_with_comparisons py record_as_dict (comparisons settings_obj) [prior] h1)
       (\<lambda>(waterfall_records, h2).
     pbind (final_score_record record_as_dict h2) (\<lambda>(final, h3).
     let waterfall_records' = waterfall_records @ [final]
     in Inr (waterfall_records', set_bar_sort_order 0 waterfall_records' h3))))"

text \<open>The dicts a caller reads through the returned list.\<close>

definition deref :: "ref list \<times> store \<Rightarrow> waterfall_record list" where
  "deref out = map (\<lambda>r. snd out ! r) (fst out)"

section \<open>Cartesian size (misc.py)\<close>

text \<open>
  C1, as stated, ends with "for a single-dataset dedupe input with N < 2 the estimator
  also fails". It does not: with one input frame of one row the code returns 0.0.
\<close>

theorem calculate_cartesian_counterexample:
  "calculate_cartesian [\<lparr>count = 1\<rparr>] ''dedupe_only'' = Inr 0"
  by (simp add: calculate_cartesian_def)

text \<open>
  C1, amended: for \<open>dedupe_only\<close> a single input frame of N rows gives N*(N-1)/2, for
  every N (so 0 for N = 0 and N = 1, without failing), and more than one frame fails;
  for \<open>link_only\<close> fewer than two frames fail and two or more give
  ((sum of counts)^2 - (sum of squared counts))/2.
\<close>

theorem calculate_cartesian_by_link_type:
  "calculate_cartesian [\<lparr>count = N\<rparr>] ''dedupe_only'' = Inr (real_of_int (N * (N - 1)) / 2) \<and>
   (length n1 > 1 \<longrightarrow> calculate_cartesian n1 ''dedupe_only'' = Inl ValueError) \<and>
   (length n2 < 2 \<longrightarrow> calculate_cartesian n2 ''link_only'' = Inl ValueError) \<and>
   (length n3 \<ge> 2 \<longrightarrow> calculate_cartesian n3 ''link_only'' =
      Inr (real_of_int ((sum_list (map count n3))\<^sup>2 - sum_list (map (\<lambda>m. (count m)\<^sup>2) n3)) / 2))"
  by (simp add: calculate_cartesian_def)

theorem calculate_cartesian_by_link_type_witness:
  "calculate_cartesian [\<lparr>count = 10\<rparr>] ''dedupe_only'' = Inr 45 \<and>
   calculate_cartesian [\<lparr>count = 3\<rparr>, \<lparr>count = 4\<rparr>] ''dedupe_only'' = Inl ValueError \<and>
   calculate_cartesian [\<lparr>count = 3\<rparr>] ''link_only'' = Inl ValueError \<and>
   calculate_cartesian [\<lparr>count = 3\<rparr>, \<lparr>count = 4\<rparr>] ''link_only'' = Inr 12"
  using calculate_cartesian_by_link_type
    [of 10 "[\<lparr>count = 3\<rparr>, \<lparr>count = 4\<rparr>]" "[\<lparr>count = 3\<rparr>]" "[\<lparr>count = 3\<rparr>, \<lparr>count = 4\<rparr>]"]
  by simp

section \<open>The prior record (waterfall\_chart.py, misc.py)\<close>

text \<open>
  C4, as stated, covers a prior probability of 0. There the odds are 0 and
  \<open>math.log2(0)\<close> raises: no prior record is built.
\<close>

theorem prior_record_counterexample:
  "prior_record \<lparr>proportion_of_matches = 0, comparisons = []\<rparr> [] = Inl ValueError"
  by (simp add: prior_record_def prob_to_bayes_factor_def)

text \<open>
  C4, amended: for every prior probability p with 0 < p < 1 the prior record is built
  and has log2_bayes_factor = log2(p / (1 - p)) and bayes_factor = p / (1 - p); for
  p = 1 the odds are +infinity and the prior record carries them.
\<close>

theorem prior_record_log2_bayes_factor:
  "(0 < proportion_of_matches s \<and> proportion_of_matches s < 1 \<longrightarrow>
      (\<exists>r h'. prior_record s h = Inr (r, h') \<and>
         log2_bayes_factor (h' ! r) =
           Fin (log 2 (proportion_of_matches s / (1 - proportion_of_matches s))) \<and>
         bayes_factor (h' ! r) = Fin (proportion_of_matches s / (1 - proportion_of_matches s)))) \<and>
   (proportion_of_matches s1 = 1 \<longrightarrow>
      prob_to_bayes_factor (proportion_of_matches s1) = PosInf \<and>
      (\<exists>r h'. prior_record s1 h1 = Inr (r, h') \<and> bayes_factor (h' ! r) = PosInf))"
  by (auto simp: prior_record_def prob_to_bayes_factor_def new_dict_def Let_def)

theorem prior_record_log2_bayes_factor_witness:
  "(\<exists>r h'. prior_record \<lparr>proportion_of_matches = 1/2, comparisons = []\<rparr> [] = Inr (r, h') \<and>
         log2_bayes_factor (h' ! r) = Fin 0 \<and> bayes_factor (h' ! r) = Fin 1) \<and>
   prob_to_bayes_factor 1 = PosInf \<and>
   (\<exists>r h'. prior_record \<lparr>proportion_of_matches = 1, comparisons = []\<rparr> [] = Inr (r, h') \<and>
         bayes_factor (h' ! r) = PosInf)"
  using prior_record_log2_bayes_factor
    [of "\<lparr>proportion_of_matches = 1/2, comparisons = []\<rparr>" "[]"
        "\<lparr>proportion_of_matches = 1, comparisons = []\<rparr>" "[]"]
  by simp

end
